theory Spec2Isabelle
  imports Main "HOL-Library.Char_ord" "HOL-Library.List_Lexorder"
begin

section \<open>JSON payloads and the Python operations the script applies to them\<close>

text \<open>
  The script \<^verbatim>\<open>Anole_gene_trees_fetch.py\<close> handles whatever \<^verbatim>\<open>response.json()\<close>
  returns, without checking its shape. A payload is therefore a JSON value; an object is
  the Python dict as the list of its items (where a key stands twice, the first item is
  the dict's). Numbers are the integers: no claim depends on a floating-point payload.
  Python's \<^verbatim>\<open>None\<close> is \<open>JNull\<close>.
\<close>

datatype json =
    JNull
  | JBool bool
  | JNum int
  | JStr string
  | JList "json list"
  | JObj "(string \<times> json) list"

text \<open>The exceptions the script can meet; each one is a value of the model.\<close>

datatype error =
    TimeoutError
  | RequestException
  | JSONDecodeError
  | TypeError
  | AttributeError
  | KeyError
  | OSError

text \<open>Truth value of a payload, as \<^verbatim>\<open>if gene_info:\<close> tests it.\<close>

fun py_truthy :: "json \<Rightarrow> bool" where
  "py_truthy JNull = False"
| "py_truthy (JBool b) = b"
| "py_truthy (JNum n) = (n \<noteq> 0)"
| "py_truthy (JStr s) = (s \<noteq> [])"
| "py_truthy (JList xs) = (xs \<noteq> [])"
| "py_truthy (JObj kvs) = (kvs \<noteq> [])"

text \<open>\<^verbatim>\<open>k in s\<close> for two strings: \<open>k\<close> occurs in \<open>s\<close> as a contiguous piece.\<close>

definition is_substring :: "string \<Rightarrow> string \<Rightarrow> bool" where
  "is_substring k s = list_ex (\<lambda>i. take (length k) (drop i s) = k) [0..<Suc (length s)]"

text \<open>
  \<^verbatim>\<open>'k' in x\<close>: a key of a dict, an element of a list, a piece of a string; a
  TypeError on a number, a boolean and None.
\<close>

fun py_in :: "string \<Rightarrow> json \<Rightarrow> error + bool" where
  "py_in k (JObj kvs) = Inr (map_of kvs k \<noteq> None)"
| "py_in k (JList xs) = Inr (JStr k \<in> set xs)"
| "py_in k (JStr s) = Inr (is_substring k s)"
| "py_in k _ = Inl TypeError"

text \<open>
  \<^verbatim>\<open>x['k']\<close>: the value of a dict (KeyError when the key is missing); a list, a string
  and every scalar refuse a string index with a TypeError.
\<close>

fun py_getitem :: "json \<Rightarrow> string \<Rightarrow> error + json" where
  "py_getitem (JObj kvs) k = (case map_of kvs k of None \<Rightarrow> Inl KeyError | Some v \<Rightarrow> Inr v)"
| "py_getitem _ k = Inl TypeError"

text \<open>\<^verbatim>\<open>x.get('k', d)\<close>: only a dict has the method.\<close>

fun py_get :: "json \<Rightarrow> string \<Rightarrow> json \<Rightarrow> error + json" where
  "py_get (JObj kvs) k d = Inr (case map_of kvs k of None \<Rightarrow> d | Some v \<Rightarrow> v)"
| "py_get _ k d = Inl AttributeError"

text \<open>
  \<^verbatim>\<open>for child in x\<close>: the elements of a list, the keys of a dict, the characters of
  a string (each a string of length one); a TypeError otherwise.
\<close>

fun py_iter :: "json \<Rightarrow> error + json list" where
  "py_iter (JList xs) = Inr xs"
| "py_iter (JObj kvs) = Inr (map JStr (remdups (map fst kvs)))"
| "py_iter (JStr s) = Inr (map (\<lambda>c. JStr [c]) s)"
| "py_iter _ = Inl TypeError"

text \<open>
  A loop body run over a list, in order, stopping at the first exception; the results
  are appended as the loop goes.
\<close>

fun for_each :: "('a \<Rightarrow> error + 'b list) \<Rightarrow> 'a list \<Rightarrow> error + 'b list" where
  "for_each f [] = Inr []"
| "for_each f (x # xs) =
     (case f x of
        Inl e \<Rightarrow> Inl e
      | Inr ys \<Rightarrow> (case for_each f xs of Inl e \<Rightarrow> Inl e | Inr zs \<Rightarrow> Inr (ys @ zs)))"

lemma for_each_cong [fundef_cong]:
  "xs = ys \<Longrightarrow> (\<And>x. x \<in> set ys \<Longrightarrow> f x = g x) \<Longrightarrow> for_each f xs = for_each g ys"
  by (induction ys arbitrary: xs) (auto split: sum.splits)

section \<open>The tree flattener: \<^verbatim>\<open>process_gene_tree_data\<close>\<close>

text \<open>One row of the table: the dict appended to \<^verbatim>\<open>processed_data\<close>.\<close>

record row =
  row_gene_id :: json
  row_gene_name :: json
  row_species :: json

text \<open>The body of the \<^verbatim>\<open>else\<close> branch of \<^verbatim>\<open>traverse_tree\<close>: a node without the key
  \<^verbatim>\<open>children\<close>. Nothing is appended unless the node has the key \<^verbatim>\<open>taxonomy\<close>.\<close>

definition extract_leaf :: "json \<Rightarrow> error + row list" where
  "extract_leaf node =
     (case py_in ''taxonomy'' node of
        Inl e \<Rightarrow> Inl e
      | Inr False \<Rightarrow> Inr []
      | Inr True \<Rightarrow>
          (case py_getitem node ''taxonomy'' of
             Inl e \<Rightarrow> Inl e
           | Inr tax \<Rightarrow>
               (case py_get tax ''scientific_name'' (JStr ''N/A'') of
                  Inl e \<Rightarrow> Inl e
                | Inr species_name \<Rightarrow>
                    (case py_get node ''id'' (JStr ''N/A'') of
                       Inl e \<Rightarrow> Inl e
                     | Inr gid \<Rightarrow>
                         (case py_get node ''gene_member'' (JObj []) of
                            Inl e \<Rightarrow> Inl e
                          | Inr member \<Rightarrow>
                              (case py_get member ''display_name'' (JStr ''N/A'') of
                                 Inl e \<Rightarrow> Inl e
                               | Inr gname \<Rightarrow>
                                   Inr [\<lparr>row_gene_id = gid, row_gene_name = gname,
                                         row_species = species_name\<rparr>]))))))"

text \<open>What \<^verbatim>\<open>for child in node['children']\<close> runs over, when the node has the key.\<close>

definition children_of :: "json \<Rightarrow> error + json list" where
  "children_of node =
     (case py_getitem node ''children'' of Inl e \<Rightarrow> Inl e | Inr cs \<Rightarrow> py_iter cs)"

lemma size_map_of:
  "map_of kvs k = Some v \<Longrightarrow> size v < Suc (size_list (size_prod (\<lambda>_. 0) size) kvs)"
  by (induction kvs) (auto split: if_splits)

lemma size_list_member:
  "x \<in> set xs \<Longrightarrow> size x < Suc (size_list size xs)"
  by (induction xs) auto

lemma children_of_smaller:
  assumes "children_of node = Inr cs" and "c \<in> set cs"
  shows "size c < size node"
proof (cases node)
  case (JObj kvs)
  with assms(1) obtain v where v: "map_of kvs ''children'' = Some v" and it: "py_iter v = Inr cs"
    by (auto simp: children_of_def split: option.splits)
  have small: "size v < size node"
    using size_map_of [OF v] JObj by simp
  show ?thesis
  proof (cases v)
    case (JList xs)
    with it assms(2) have "c \<in> set xs" by simp
    from size_list_member [OF this] JList small show ?thesis by simp
  next
    case (JObj kvs')
    with it assms(2) obtain k where "c = JStr k" by auto
    with small show ?thesis by simp
  next
    case (JStr s)
    with it assms(2) obtain ch where "c = JStr [ch]" by auto
    with small show ?thesis by simp
  qed (use it in simp_all)
qed (use assms(1) in \<open>simp_all add: children_of_def\<close>)

function traverse_tree :: "json \<Rightarrow> error + row list" where
  "traverse_tree node =
     (case py_in ''children'' node of
        Inl e \<Rightarrow> Inl e
      | Inr True \<Rightarrow>
          (case children_of node of
             Inl e \<Rightarrow> Inl e
           | Inr cs \<Rightarrow> for_each traverse_tree cs)
      | Inr False \<Rightarrow> extract_leaf node)"
  by pat_completeness auto
termination
  by (relation "measure size") (auto dest: children_of_smaller)

declare traverse_tree.simps [simp del]

text \<open>
  \<^verbatim>\<open>process_gene_tree_data\<close>: a non-empty list is looked at through its first element,
  a dict directly; the root is what stands under the key \<^verbatim>\<open>tree\<close>. An exception of
  the traversal leaves the function, so the result is the list or the exception.
\<close>

definition process_gene_tree_data :: "json \<Rightarrow> error + row list" where
  "process_gene_tree_data gene_tree_info =
     (case gene_tree_info of
        JList (first # rest) \<Rightarrow>
          (case py_in ''tree'' first of
             Inl e \<Rightarrow> Inl e
           | Inr True \<Rightarrow>
               (case py_getitem first ''tree'' of Inl e \<Rightarrow> Inl e | Inr root \<Rightarrow> traverse_tree root)
           | Inr False \<Rightarrow> Inr [])
      | JObj kvs \<Rightarrow>
          (case py_in ''tree'' gene_tree_info of
             Inl e \<Rightarrow> Inl e
           | Inr True \<Rightarrow>
               (case py_getitem gene_tree_info ''tree'' of
                  Inl e \<Rightarrow> Inl e
                | Inr root \<Rightarrow> traverse_tree root)
           | Inr False \<Rightarrow> Inr [])
      | _ \<Rightarrow> Inr [])"

subsection \<open>The tree of the specification, and its reference leaf enumeration\<close>

text \<open>
  The specification's data model: a node is a mapping; an internal node has a
  \<^verbatim>\<open>children\<close> collection of nodes; a leaf has none and optionally carries
  \<^verbatim>\<open>taxonomy.scientific_name\<close>, \<^verbatim>\<open>id\<close> and \<^verbatim>\<open>gene_member.display_name\<close>.
  The definitions of this subsection follow the specification's words, to be compared
  with \<open>traverse_tree\<close>.
\<close>

definition has_field :: "string \<Rightarrow> json \<Rightarrow> bool" where
  "has_field k node = (case node of JObj kvs \<Rightarrow> map_of kvs k \<noteq> None | _ \<Rightarrow> False)"

definition is_mapping :: "json \<Rightarrow> bool" where
  "is_mapping v = (case v of JObj kvs \<Rightarrow> True | _ \<Rightarrow> False)"

definition is_collection :: "json \<Rightarrow> bool" where
  "is_collection v = (case v of JList xs \<Rightarrow> True | _ \<Rightarrow> False)"

text \<open>A field of a leaf, where present, has the shape the data model gives it.\<close>

definition field_is_mapping :: "string \<Rightarrow> json \<Rightarrow> bool" where
  "field_is_mapping k node =
     (case py_getitem node k of Inr v \<Rightarrow> is_mapping v | Inl e \<Rightarrow> True)"

function wf_tree :: "json \<Rightarrow> bool" where
  "wf_tree node =
     (is_mapping node \<and>
      (if has_field ''children'' node
       then (case py_getitem node ''children'' of Inr v \<Rightarrow> is_collection v | Inl e \<Rightarrow> False) \<and>
            (case children_of node of Inr cs \<Rightarrow> list_all wf_tree cs | Inl e \<Rightarrow> False)
       else field_is_mapping ''taxonomy'' node \<and> field_is_mapping ''gene_member'' node))"
  by pat_completeness auto
termination
  by (relation "measure size") (auto dest: children_of_smaller)

declare wf_tree.simps [simp del]

text \<open>The reference enumeration: the leaves, depth first, children left to right.\<close>

function ref_leaves :: "json \<Rightarrow> json list" where
  "ref_leaves node =
     (if has_field ''children'' node
      then (case children_of node of Inr cs \<Rightarrow> concat (map ref_leaves cs) | Inl e \<Rightarrow> [])
      else [node])"
  by pat_completeness auto
termination
  by (relation "measure size") (auto dest: children_of_smaller)

declare ref_leaves.simps [simp del]

text \<open>A field read along a path of keys, with the sentinel where it is missing.\<close>

fun field_or_na :: "string list \<Rightarrow> json \<Rightarrow> json" where
  "field_or_na [] v = v"
| "field_or_na (k # ks) (JObj kvs) =
     (case map_of kvs k of None \<Rightarrow> JStr ''N/A'' | Some v \<Rightarrow> field_or_na ks v)"
| "field_or_na (k # ks) v = JStr ''N/A''"

text \<open>The flattened record of a leaf, one per leaf, as the specification describes it.\<close>

definition ref_record :: "json \<Rightarrow> row" where
  "ref_record leaf =
     \<lparr>row_gene_id = field_or_na [''id''] leaf,
      row_gene_name = field_or_na [''gene_member'', ''display_name''] leaf,
      row_species = field_or_na [''taxonomy'', ''scientific_name''] leaf\<rparr>"

definition ref_flatten :: "json \<Rightarrow> row list" where
  "ref_flatten root = map ref_record (ref_leaves root)"

section \<open>The surroundings of the script\<close>

text \<open>One entry of \<^verbatim>\<open>anole_genes\<close>: both fields are strings read from the gene list.\<close>

record gene =
  gene_id :: string
  gene_symbol :: string

text \<open>
  What a \<^verbatim>\<open>requests.get\<close> under \<^verbatim>\<open>timeout_decorator.timeout(300)\<close> can end in: the
  timeout, an exception of the transport, or a response with its status code and its
  body (\<open>None\<close> when the body is not JSON, so that \<^verbatim>\<open>response.json()\<close> raises).
\<close>

datatype reply = TimedOut | ConnectionFailed | Response int "json option"

text \<open>
  Everything the script does not decide is a parameter of a run: the replies of the two
  Ensembl services (by gene id, and by the symbol as the URL spells it), the text an
  f-string gives a value (\<^verbatim>\<open>str\<close>), whether a path can be opened for writing, and the
  order in which \<^verbatim>\<open>list\<close> enumerates a Python set, which the language leaves open.
\<close>

record env =
  primary_reply :: "string \<Rightarrow> reply"
  dependent_reply :: "string \<Rightarrow> reply"
  render :: "json \<Rightarrow> string"
  can_write :: "string \<Rightarrow> bool"
  listing :: "string set \<Rightarrow> string list"

text \<open>The two kinds of output file: a table with its header row, or a text.\<close>

datatype content = Table "string list" "row list" | Text string

text \<open>
  The dict that \<^verbatim>\<open>save_checkpoint\<close> dumps, as it stands in \<^verbatim>\<open>checkpoint.json\<close>. The
  key \<^verbatim>\<open>current_gene_number\<close> may be missing: \<^verbatim>\<open>load_checkpoint\<close> reads it with
  \<^verbatim>\<open>.get\<close>. The file is absent, or holds such a dict, or holds an incomplete text:
  \<^verbatim>\<open>open('checkpoint.json', 'w')\<close> empties the file before \<^verbatim>\<open>json.dump\<close> writes to it.
\<close>

record stored =
  st_processed_genes :: "string list"
  st_last_gene :: "string option"
  st_current_gene_number :: "int option"

datatype checkpoint_file = NoFile | Incomplete | Stored stored

text \<open>The effects of a run that leave no trace in the files, in the order they happen.\<close>

datatype event =
    PrimaryLookup string
  | DependentLookup string
  | FileWritten string
  | CheckpointSaved
  | Sleep

text \<open>
  The state: the script's global variables (\<^verbatim>\<open>total_genes\<close> is only printed and is
  left out), the output files by path, the checkpoint file, and the events so far.
\<close>

record state =
  last_processed_gene :: "string option"
  processed_genes :: "string set"
  current_gene_number :: int
  files :: "string \<rightharpoonup> content"
  checkpoint_file :: checkpoint_file
  log :: "event list"

section \<open>The remote record fetcher\<close>

definition fetch_gene_info :: "env \<Rightarrow> string \<Rightarrow> error + json" where
  "fetch_gene_info e gid =
     (case primary_reply e gid of
        TimedOut \<Rightarrow> Inl TimeoutError
      | ConnectionFailed \<Rightarrow> Inl RequestException
      | Response status_code body \<Rightarrow>
          if status_code = 200
          then (case body of None \<Rightarrow> Inl JSONDecodeError | Some j \<Rightarrow> Inr j)
          else Inr JNull)"

text \<open>The URL of the gene tree holds the symbol only; the gene id is not used.\<close>

definition fetch_gene_tree_info :: "env \<Rightarrow> string \<Rightarrow> json \<Rightarrow> error + json" where
  "fetch_gene_tree_info e gid symbol =
     (case dependent_reply e (render e symbol) of
        TimedOut \<Rightarrow> Inl TimeoutError
      | ConnectionFailed \<Rightarrow> Inl RequestException
      | Response status_code body \<Rightarrow>
          if status_code = 200
          then (case body of None \<Rightarrow> Inl JSONDecodeError | Some j \<Rightarrow> Inr j)
          else Inr JNull)"

section \<open>The checkpoint store\<close>

text \<open>The dict dumped by \<^verbatim>\<open>save_checkpoint\<close>, from the globals.\<close>

definition checkpoint_data :: "env \<Rightarrow> state \<Rightarrow> stored" where
  "checkpoint_data e s =
     \<lparr>st_processed_genes = listing e (processed_genes s),
      st_last_gene = last_processed_gene s,
      st_current_gene_number = Some (current_gene_number s)\<rparr>"

text \<open>
  What \<^verbatim>\<open>checkpoint.json\<close> holds on disk while \<^verbatim>\<open>save_checkpoint\<close> runs, in order:
  emptied by \<^verbatim>\<open>open(..., 'w')\<close>, then the whole dict once the \<^verbatim>\<open>with\<close> block has
  closed the file. There is no temporary file and no rename.
\<close>

definition save_checkpoint_writes :: "env \<Rightarrow> state \<Rightarrow> checkpoint_file list" where
  "save_checkpoint_writes e s = [Incomplete, Stored (checkpoint_data e s)]"

definition save_checkpoint :: "env \<Rightarrow> state \<Rightarrow> state" where
  "save_checkpoint e s =
     s\<lparr>checkpoint_file := last (save_checkpoint_writes e s), log := log s @ [CheckpointSaved]\<rparr>"

text \<open>
  The process dies inside \<^verbatim>\<open>save_checkpoint\<close> after \<open>k\<close> of its writes have reached the
  disk: the file is what the last of them left, or untouched when \<open>k = 0\<close>.
\<close>

definition file_after_crash :: "env \<Rightarrow> state \<Rightarrow> nat \<Rightarrow> checkpoint_file" where
  "file_after_crash e s k =
     (checkpoint_file s # save_checkpoint_writes e s) ! min k (length (save_checkpoint_writes e s))"

definition load_checkpoint :: "checkpoint_file \<Rightarrow> error + (string set \<times> string option \<times> int)" where
  "load_checkpoint f =
     (case f of
        NoFile \<Rightarrow> Inr ({}, None, 0)
      | Incomplete \<Rightarrow> Inl JSONDecodeError
      | Stored d \<Rightarrow>
          Inr (set (st_processed_genes d), st_last_gene d,
               (case st_current_gene_number d of None \<Rightarrow> 0 | Some n \<Rightarrow> n)))"

section \<open>The batch engine\<close>

text \<open>\<^verbatim>\<open>os.path.join(output_dir, name)\<close>: an absolute \<open>name\<close> replaces the directory.\<close>

definition path_join :: "string \<Rightarrow> string \<Rightarrow> string" where
  "path_join dir name =
     (case name of
        c # cs \<Rightarrow> if c = CHR ''/'' then name else dir @ ''/'' @ name
      | [] \<Rightarrow> dir @ ''/'')"

definition output_dir :: string where
  "output_dir = ''green_anole_gene_tree_files''"

definition output_file :: "env \<Rightarrow> json \<Rightarrow> string \<Rightarrow> string" where
  "output_file e symbol ext = path_join output_dir (render e symbol @ ''_gene_tree'' @ ext)"

text \<open>\<^verbatim>\<open>with open(path, 'w') as f: ...\<close>: the file is replaced, or the open fails.\<close>

definition write_file :: "env \<Rightarrow> string \<Rightarrow> content \<Rightarrow> state \<Rightarrow> error + state" where
  "write_file e path c s =
     (if can_write e path
      then Inr (s\<lparr>files := (files s)(path \<mapsto> c), log := log s @ [FileWritten path]\<rparr>)
      else Inl OSError)"

definition no_tree_text :: string where
  "no_tree_text = ''No gene tree available''"

text \<open>Lines 127 to 152: the table, or the text file when there is nothing to tabulate.\<close>

definition write_gene_tree :: "env \<Rightarrow> json \<Rightarrow> json \<Rightarrow> state \<Rightarrow> error + state" where
  "write_gene_tree e symbol gene_tree_info s =
     (if py_truthy gene_tree_info
      then (case process_gene_tree_data gene_tree_info of
              Inl x \<Rightarrow> Inl x
            | Inr processed_data \<Rightarrow>
                if processed_data \<noteq> []
                then write_file e (output_file e symbol ''.csv'')
                       (Table [''gene_id'', ''gene_name'', ''species''] processed_data) s
                else write_file e (output_file e symbol ''.txt'') (Text no_tree_text) s)
      else write_file e (output_file e symbol ''.txt'') (Text no_tree_text) s)"

definition sleep :: "state \<Rightarrow> state" where
  "sleep s = s\<lparr>log := log s @ [Sleep]\<rparr>"

definition called :: "event \<Rightarrow> state \<Rightarrow> state" where
  "called ev s = s\<lparr>log := log s @ [ev]\<rparr>"

text \<open>
  The body of the loop of \<^verbatim>\<open>process_gene_batch\<close> for one gene. Every exception inside
  the \<^verbatim>\<open>try\<close> is caught there and leads to the \<^verbatim>\<open>time.sleep(1)\<close> after it; the two
  \<^verbatim>\<open>continue\<close> statements skip the sleep.
\<close>

definition process_gene :: "env \<Rightarrow> state \<Rightarrow> gene \<Rightarrow> state" where
  "process_gene e s0 g =
     (let s1 = s0\<lparr>current_gene_number := current_gene_number s0 + 1\<rparr> in
      if gene_id g \<in> processed_genes s1 then s1
      else
        let s2 = called (PrimaryLookup (gene_id g)) s1 in
        case fetch_gene_info e (gene_id g) of
          Inl x \<Rightarrow> sleep s2
        | Inr gene_info \<Rightarrow>
            if \<not> py_truthy gene_info then s2
            else
              (case py_get gene_info ''display_name'' (JStr (gene_symbol g)) of
                 Inl x \<Rightarrow> sleep s2
               | Inr symbol \<Rightarrow>
                   let s3 = called (DependentLookup (render e symbol)) s2 in
                   (case fetch_gene_tree_info e (gene_id g) symbol of
                      Inl x \<Rightarrow> sleep s3
                    | Inr gene_tree_info \<Rightarrow>
                        (case write_gene_tree e symbol gene_tree_info s3 of
                           Inl x \<Rightarrow> sleep s3
                         | Inr s4 \<Rightarrow>
                             sleep (save_checkpoint e
                               (s4\<lparr>processed_genes := insert (gene_id g) (processed_genes s4),
                                   last_processed_gene := Some (gene_id g)\<rparr>))))))"

definition process_gene_batch :: "env \<Rightarrow> state \<Rightarrow> gene list \<Rightarrow> state" where
  "process_gene_batch e s batch = foldl (process_gene e) s batch"

text \<open>\<^verbatim>\<open>range(start, stop, step)\<close> for a positive step.\<close>

definition py_range :: "int \<Rightarrow> int \<Rightarrow> int \<Rightarrow> int list" where
  "py_range start stop step =
     map (\<lambda>k. start + int k * step) [0..<nat ((stop - start + step - 1) div step)]"

text \<open>\<^verbatim>\<open>xs[i:j]\<close>: a negative bound counts from the end, and both are clipped.\<close>

definition py_slice :: "'a list \<Rightarrow> int \<Rightarrow> int \<Rightarrow> 'a list" where
  "py_slice xs i j =
     (let n = int (length xs);
          lo = (if i < 0 then max (n + i) 0 else min i n);
          hi = (if j < 0 then max (n + j) 0 else min j n)
      in take (nat (hi - lo)) (drop (nat lo) xs))"

definition batch_size :: int where
  "batch_size = 100"

text \<open>The batches of \<^verbatim>\<open>process_all_gene_trees\<close>: the range starts at the loaded
  \<^verbatim>\<open>current_gene_number\<close>.\<close>

definition batches :: "gene list \<Rightarrow> int \<Rightarrow> gene list list" where
  "batches anole_genes start =
     map (\<lambda>i. py_slice anole_genes i (i + batch_size))
       (py_range start (int (length anole_genes)) batch_size)"

text \<open>
  \<^verbatim>\<open>process_all_gene_trees\<close>, from the loading of the checkpoint on; the gene list is
  given as read from the CSV file. The second component of what \<^verbatim>\<open>load_checkpoint\<close>
  returns goes to a local variable, so \<^verbatim>\<open>last_processed_gene\<close> keeps its value. An
  exception of \<^verbatim>\<open>load_checkpoint\<close> leaves the function before anything has changed.
\<close>

definition process_all_gene_trees :: "env \<Rightarrow> gene list \<Rightarrow> state \<Rightarrow> error + state" where
  "process_all_gene_trees e anole_genes s =
     (case load_checkpoint (checkpoint_file s) of
        Inl x \<Rightarrow> Inl x
      | Inr (loaded, last_gene, n) \<Rightarrow>
          Inr (save_checkpoint e
                 (foldl (process_gene_batch e)
                    (s\<lparr>processed_genes := loaded, current_gene_number := n\<rparr>)
                    (batches anole_genes n))))"

text \<open>A new process on the disk a state has left: the globals as the script sets them.\<close>

definition new_process :: "state \<Rightarrow> state" where
  "new_process d =
     \<lparr>last_processed_gene = None, processed_genes = {}, current_gene_number = 0,
      files = files d, checkpoint_file = checkpoint_file d, log = []\<rparr>"

text \<open>The \<^verbatim>\<open>__main__\<close> block: an exception of the run saves the checkpoint.\<close>

definition main :: "env \<Rightarrow> gene list \<Rightarrow> state \<Rightarrow> state" where
  "main e anole_genes d =
     (case process_all_gene_trees e anole_genes (new_process d) of
        Inl x \<Rightarrow> save_checkpoint e (new_process d)
      | Inr s \<Rightarrow> s)"

subsection \<open>Interruption between two genes\<close>


text \<open>The genes a run goes through, batch after batch.\<close>

definition visited :: "gene list \<Rightarrow> int \<Rightarrow> gene list" where
  "visited anole_genes start = concat (batches anole_genes start)"



text \<open>The gene ids whose primary lookup a run has requested, in order.\<close>

definition primary_lookups :: "event list \<Rightarrow> string list" where
  "primary_lookups evs = concat (map (\<lambda>ev. case ev of PrimaryLookup i \<Rightarrow> [i] | _ \<Rightarrow> []) evs)"

section \<open>Notions used to state the properties\<close>

text \<open>
  The processing of a gene runs to the end of the \<^verbatim>\<open>try\<close> block (past the writing of
  its output file and the saving of the checkpoint): started in a state that has marked
  nothing, it marks the gene.
\<close>

definition nothing_done :: state where
  "nothing_done =
     \<lparr>last_processed_gene = None, processed_genes = {}, current_gene_number = 0,
      files = Map.empty, checkpoint_file = NoFile, log = []\<rparr>"

definition completes :: "env \<Rightarrow> gene \<Rightarrow> bool" where
  "completes e g = (gene_id g \<in> processed_genes (process_gene e nothing_done g))"

text \<open>The two states a turn of the loop can end in for a gene that is not skipped.\<close>

definition failed_state :: "state \<Rightarrow> gene \<Rightarrow> event list \<Rightarrow> state" where
  "failed_state s g evs =
     s\<lparr>current_gene_number := current_gene_number s + 1,
       log := log s @ PrimaryLookup (gene_id g) # evs\<rparr>"

definition done_state :: "env \<Rightarrow> state \<Rightarrow> gene \<Rightarrow> string \<Rightarrow> content \<Rightarrow> event list \<Rightarrow> state" where
  "done_state e s g path c evs =
     s\<lparr>current_gene_number := current_gene_number s + 1,
       processed_genes := insert (gene_id g) (processed_genes s),
       last_processed_gene := Some (gene_id g),
       files := (files s)(path \<mapsto> c),
       checkpoint_file := Stored
         \<lparr>st_processed_genes = listing e (insert (gene_id g) (processed_genes s)),
          st_last_gene = Some (gene_id g),
          st_current_gene_number = Some (current_gene_number s + 1)\<rparr>,
       log := log s @ PrimaryLookup (gene_id g) # evs\<rparr>"



section \<open>Example data\<close>

text \<open>
  The leaves of the specification's example, a leaf that carries no \<^verbatim>\<open>taxonomy\<close>, and
  trees built from them.
\<close>

definition leaf_a :: json where
  "leaf_a = JObj [(''taxonomy'', JObj [(''scientific_name'', JStr ''Species A'')]),
                  (''id'', JStr ''L1''),
                  (''gene_member'', JObj [(''display_name'', JStr ''GeneA'')])]"

definition leaf_b :: json where
  "leaf_b = JObj [(''taxonomy'', JObj [(''scientific_name'', JStr ''Species B'')]),
                  (''id'', JStr ''L2'')]"

definition leaf_bare :: json where
  "leaf_bare = JObj [(''id'', JStr ''L3''),
                     (''gene_member'', JObj [(''display_name'', JStr ''GeneC'')])]"

definition tree_ab :: json where
  "tree_ab = JObj [(''children'', JList [leaf_a, leaf_b])]"

definition tree_mixed :: json where
  "tree_mixed =
     JObj [(''id'', JStr ''root''), (''children'', JList [JObj [(''id'', JStr ''L4'')], leaf_b])]"

text \<open>Genes, and surroundings in which each of them meets a different fate.\<close>

definition gene_1 :: gene where
  "gene_1 = \<lparr>gene_id = ''G1'', gene_symbol = ''foo''\<rparr>"

definition gene_2 :: gene where
  "gene_2 = \<lparr>gene_id = ''G2'', gene_symbol = ''bar''\<rparr>"

definition gene_3 :: gene where
  "gene_3 = \<lparr>gene_id = ''G3'', gene_symbol = ''baz''\<rparr>"

definition gene_4 :: gene where
  "gene_4 = \<lparr>gene_id = ''G4'', gene_symbol = ''qux''\<rparr>"

definition gene_5 :: gene where
  "gene_5 = \<lparr>gene_id = ''G5'', gene_symbol = ''quux''\<rparr>"

definition gene_6 :: gene where
  "gene_6 = \<lparr>gene_id = ''G6'', gene_symbol = ''slow''\<rparr>"

text \<open>
  The primary lookup knows \<^verbatim>\<open>G1\<close>, \<^verbatim>\<open>G2\<close> (without a display name), \<^verbatim>\<open>G3\<close> and
  \<^verbatim>\<open>G6\<close>, answers 503 for \<^verbatim>\<open>G4\<close> and times out for \<^verbatim>\<open>G5\<close>.
\<close>

definition example_primary :: "string \<Rightarrow> reply" where
  "example_primary i =
     (if i = ''G1'' then Response 200 (Some (JObj [(''display_name'', JStr ''foo'')]))
      else if i = ''G2'' then Response 200 (Some (JObj [(''id'', JStr ''G2'')]))
      else if i = ''G3'' then Response 200 (Some (JObj [(''display_name'', JStr ''baz'')]))
      else if i = ''G4'' then Response 503 None
      else if i = ''G5'' then TimedOut
      else if i = ''G6'' then Response 200 (Some (JObj [(''display_name'', JStr ''slow'')]))
      else ConnectionFailed)"

text \<open>
  The gene tree lookup has the example tree for \<^verbatim>\<open>foo\<close>, an empty result for
  \<^verbatim>\<open>bar\<close>, answers 404 for \<^verbatim>\<open>baz\<close> and times out for \<^verbatim>\<open>slow\<close>.
\<close>

definition example_dependent :: "string \<Rightarrow> reply" where
  "example_dependent name =
     (if name = ''foo'' then Response 200 (Some (JList [JObj [(''tree'', tree_ab)]]))
      else if name = ''bar'' then Response 200 (Some (JList []))
      else if name = ''baz'' then Response 404 None
      else if name = ''slow'' then TimedOut
      else ConnectionFailed)"

text \<open>\<^verbatim>\<open>str\<close> on the values the examples format: a string is itself, None is "None".\<close>

definition example_render :: "json \<Rightarrow> string" where
  "example_render v = (case v of JStr s \<Rightarrow> s | _ \<Rightarrow> ''None'')"

definition example_env :: env where
  "example_env =
     \<lparr>primary_reply = example_primary, dependent_reply = example_dependent,
      render = example_render, can_write = (\<lambda>path. True), listing = sorted_list_of_set\<rparr>"

text \<open>The same surroundings on a day when the primary lookup of \<^verbatim>\<open>G1\<close> answers 503.\<close>

definition outage_env :: env where
  "outage_env =
     example_env\<lparr>primary_reply :=
       (\<lambda>i. if i = ''G1'' then Response 503 None else example_primary i)\<rparr>"

text \<open>A process that has completed \<^verbatim>\<open>G1\<close> and \<^verbatim>\<open>G2\<close>, over a checkpoint that holds
  \<^verbatim>\<open>G1\<close> only.\<close>

definition two_done :: state where
  "two_done =
     \<lparr>last_processed_gene = Some ''G2'', processed_genes = {''G1'', ''G2''},
      current_gene_number = 2, files = Map.empty,
      checkpoint_file = Stored \<lparr>st_processed_genes = [''G1''], st_last_gene = Some ''G1'',
                                st_current_gene_number = Some 1\<rparr>,
      log = []\<rparr>"




section \<open>Properties of the flattener\<close>

lemma for_each_all:
  "(\<And>x. x \<in> set xs \<Longrightarrow> f x = Inr (g x)) \<Longrightarrow> for_each f xs = Inr (concat (map g xs))"
  by (induction xs) auto

lemma has_field_py_in:
  "is_mapping node \<Longrightarrow> py_in k node = Inr (has_field k node)"
  by (cases node) (auto simp: is_mapping_def has_field_def)

text \<open>On a leaf of the data model the extraction cannot raise.\<close>

lemma extract_leaf_wf:
  assumes "is_mapping node" "field_is_mapping ''taxonomy'' node" "field_is_mapping ''gene_member'' node"
  shows "extract_leaf node = Inr (if has_field ''taxonomy'' node then [ref_record node] else [])"
proof -
  from assms(1) obtain kvs where n: "node = JObj kvs" by (cases node) (auto simp: is_mapping_def)
  show ?thesis
  proof (cases "map_of kvs ''taxonomy''")
    case None
    then show ?thesis by (simp add: n extract_leaf_def has_field_def)
  next
    case (Some tax)
    with assms(2) n obtain tkvs where t: "tax = JObj tkvs"
      by (cases tax) (auto simp: field_is_mapping_def is_mapping_def)
    show ?thesis
    proof (cases "map_of kvs ''gene_member''")
      case None
      with Some t show ?thesis
        by (simp add: n extract_leaf_def has_field_def ref_record_def split: option.splits)
    next
      case (Some m)
      with assms(3) n obtain mkvs where m: "m = JObj mkvs"
        by (cases m) (auto simp: field_is_mapping_def is_mapping_def)
      with Some \<open>map_of kvs ''taxonomy'' = Some tax\<close> t show ?thesis
        by (simp add: n extract_leaf_def has_field_def ref_record_def split: option.splits)
    qed
  qed
qed

text \<open>
  The traversal against the reference enumeration: the rows are those of the leaves that
  have the key \<^verbatim>\<open>taxonomy\<close>, in the order of the enumeration.
\<close>

lemma traverse_tree_wf:
  "wf_tree t \<Longrightarrow>
   traverse_tree t = Inr (map ref_record (filter (has_field ''taxonomy'') (ref_leaves t)))"
proof (induction t rule: traverse_tree.induct)
  case (1 node)
  from "1.prems" have m: "is_mapping node" by (simp add: wf_tree.simps [of node])
  show ?case
  proof (cases "has_field ''children'' node")
    case True
    with "1.prems" obtain cs where cs: "children_of node = Inr cs" and all: "list_all wf_tree cs"
      by (auto simp: wf_tree.simps [of node] split: sum.splits)
    have "for_each traverse_tree cs =
          Inr (concat (map (\<lambda>c. map ref_record (filter (has_field ''taxonomy'') (ref_leaves c))) cs))"
      using "1.IH" [OF _ _ cs] m True all
      by (intro for_each_all) (auto simp: has_field_py_in list_all_iff)
    then show ?thesis
      using True m cs
      by (simp add: traverse_tree.simps [of node] ref_leaves.simps [of node] has_field_py_in
          map_concat filter_concat comp_def)
  next
    case False
    with "1.prems" show ?thesis
      using m
      by (simp add: traverse_tree.simps [of node] ref_leaves.simps [of node] has_field_py_in
          wf_tree.simps [of node] extract_leaf_wf)
  qed
qed

lemma ref_leaves_leaf:
  "wf_tree root \<Longrightarrow> leaf \<in> set (ref_leaves root) \<Longrightarrow>
   wf_tree leaf \<and> \<not> has_field ''children'' leaf"
proof (induction root rule: ref_leaves.induct)
  case (1 node)
  show ?case
  proof (cases "has_field ''children'' node")
    case True
    with "1.prems"(1) obtain cs where cs: "children_of node = Inr cs" and all: "list_all wf_tree cs"
      by (auto simp: wf_tree.simps [of node] split: sum.splits)
    from "1.prems"(2) True cs obtain c where c: "c \<in> set cs" and l: "leaf \<in> set (ref_leaves c)"
      by (auto simp: ref_leaves.simps [of node])
    from all c have "wf_tree c" by (simp add: list_all_iff)
    from "1.IH" [OF True cs c this l] show ?thesis .
  next
    case False
    with "1.prems" show ?thesis by (simp add: ref_leaves.simps [of node])
  qed
qed

lemma traverse_leaf:
  "wf_tree leaf \<Longrightarrow> \<not> has_field ''children'' leaf \<Longrightarrow>
   traverse_tree leaf = Inr (if has_field ''taxonomy'' leaf then [ref_record leaf] else [])"
  by (simp add: traverse_tree.simps [of leaf] wf_tree.simps [of leaf] has_field_py_in extract_leaf_wf)

lemma concat_filter_rows:
  "concat (map (\<lambda>x. if P x then [f x] else []) xs) = map f (filter P xs)"
  by (induction xs) auto

lemma unwrap_dict:
  "map_of kvs ''tree'' = Some root \<Longrightarrow> process_gene_tree_data (JObj kvs) = traverse_tree root"
  by (simp add: process_gene_tree_data_def)

text \<open>The equations that evaluate the flattener on a given payload.\<close>

lemmas flatten_eval =
  wf_tree.simps ref_leaves.simps traverse_tree.simps has_field_def is_mapping_def
  is_collection_def field_is_mapping_def children_of_def extract_leaf_def ref_record_def
  leaf_a_def leaf_b_def leaf_bare_def tree_ab_def tree_mixed_def process_gene_tree_data_def
  ref_flatten_def

text \<open>
  Claim C3, as the code has it. In a tree of the data model, a leaf (a node of the
  reference enumeration, which has no \<^verbatim>\<open>children\<close>) that has the field \<^verbatim>\<open>taxonomy\<close>
  yields exactly one row, with the sentinel \<^verbatim>\<open>N/A\<close> for each of \<^verbatim>\<open>id\<close>,
  \<^verbatim>\<open>gene_member.display_name\<close> and \<^verbatim>\<open>taxonomy.scientific_name\<close> that is missing
  (\<open>ref_record\<close>); a leaf without \<^verbatim>\<open>taxonomy\<close> yields no row. The rows of the tree are
  the rows of its leaves, one segment per leaf, in order.
\<close>

theorem leaf_records:
  assumes "wf_tree root" and "leaf \<in> set (ref_leaves root)"
  shows "traverse_tree leaf =
           Inr (if has_field ''taxonomy'' leaf then [ref_record leaf] else []) \<and>
         traverse_tree root =
           Inr (concat (map (\<lambda>l. if has_field ''taxonomy'' l then [ref_record l] else [])
                  (ref_leaves root)))"
  using ref_leaves_leaf [OF assms] traverse_leaf [of leaf] traverse_tree_wf [OF assms(1)]
  by (simp add: concat_filter_rows)

text \<open>The theorem at the two-leaf tree of the specification's example.\<close>

theorem leaf_records_witness:
  "wf_tree tree_ab \<and> leaf_b \<in> set (ref_leaves tree_ab) \<and>
   traverse_tree leaf_b =
     Inr [\<lparr>row_gene_id = JStr ''L2'', row_gene_name = JStr ''N/A'', row_species = JStr ''Species B''\<rparr>] \<and>
   traverse_tree tree_ab =
     Inr [\<lparr>row_gene_id = JStr ''L1'', row_gene_name = JStr ''GeneA'', row_species = JStr ''Species A''\<rparr>,
          \<lparr>row_gene_id = JStr ''L2'', row_gene_name = JStr ''N/A'', row_species = JStr ''Species B''\<rparr>]"
proof -
  have w: "wf_tree tree_ab" by (simp add: flatten_eval)
  have l: "leaf_b \<in> set (ref_leaves tree_ab)" by (simp add: flatten_eval)
  from leaf_records [OF w l] w l show ?thesis
    by (simp add: flatten_eval)
qed

text \<open>
  Claim C3 as stated fails: a leaf with an \<^verbatim>\<open>id\<close> and a \<^verbatim>\<open>gene_member\<close> but no
  \<^verbatim>\<open>taxonomy\<close> is left out of the output (line 54 of the script guards the append).
\<close>

theorem leaf_without_taxonomy_omitted:
  "wf_tree leaf_bare \<and> \<not> has_field ''children'' leaf_bare \<and>
   process_gene_tree_data (JObj [(''tree'', leaf_bare)]) = Inr []"
  by (simp add: flatten_eval)

text \<open>
  Claim C6, as the code has it. For every tree of the data model, the flattener returns
  the records of the reference enumeration's leaves that have a \<^verbatim>\<open>taxonomy\<close> field, in
  the enumeration's order (depth first, children left to right); where every leaf has
  one, that is the reference enumeration itself. The enumeration holds no node with a
  \<^verbatim>\<open>children\<close> field, so no internal node contributes a record.
\<close>

theorem flatten_preorder:
  assumes "wf_tree root"
  shows "process_gene_tree_data (JObj [(''tree'', root)]) =
           Inr (map ref_record (filter (has_field ''taxonomy'') (ref_leaves root))) \<and>
         (list_all (has_field ''taxonomy'') (ref_leaves root) \<longrightarrow>
            process_gene_tree_data (JObj [(''tree'', root)]) = Inr (ref_flatten root)) \<and>
         list_all (\<lambda>n. \<not> has_field ''children'' n) (ref_leaves root)"
proof -
  have a: "process_gene_tree_data (JObj [(''tree'', root)]) =
           Inr (map ref_record (filter (has_field ''taxonomy'') (ref_leaves root)))"
    using traverse_tree_wf [OF assms] by (simp add: unwrap_dict)
  have b: "list_all (\<lambda>n. \<not> has_field ''children'' n) (ref_leaves root)"
    using ref_leaves_leaf [OF assms] by (simp add: list_all_iff)
  have c: "list_all (has_field ''taxonomy'') (ref_leaves root) \<Longrightarrow>
           filter (has_field ''taxonomy'') (ref_leaves root) = ref_leaves root"
    by (simp add: list_all_iff)
  from a b c show ?thesis by (simp add: ref_flatten_def)
qed

text \<open>The theorem at the specification's example, with the output the example expects.\<close>

theorem flatten_preorder_witness:
  "wf_tree tree_ab \<and> list_all (has_field ''taxonomy'') (ref_leaves tree_ab) \<and>
   process_gene_tree_data (JObj [(''tree'', tree_ab)]) = Inr (ref_flatten tree_ab) \<and>
   ref_flatten tree_ab =
     [\<lparr>row_gene_id = JStr ''L1'', row_gene_name = JStr ''GeneA'', row_species = JStr ''Species A''\<rparr>,
      \<lparr>row_gene_id = JStr ''L2'', row_gene_name = JStr ''N/A'', row_species = JStr ''Species B''\<rparr>]"
proof -
  have w: "wf_tree tree_ab" by (simp add: flatten_eval)
  have l: "list_all (has_field ''taxonomy'') (ref_leaves tree_ab)" by (simp add: flatten_eval)
  have r: "ref_flatten tree_ab =
     [\<lparr>row_gene_id = JStr ''L1'', row_gene_name = JStr ''GeneA'', row_species = JStr ''Species A''\<rparr>,
      \<lparr>row_gene_id = JStr ''L2'', row_gene_name = JStr ''N/A'', row_species = JStr ''Species B''\<rparr>]"
    by (simp add: flatten_eval)
  from flatten_preorder [OF w] l
  have e: "process_gene_tree_data (JObj [(''tree'', tree_ab)]) = Inr (ref_flatten tree_ab)"
    by blast
  from w l e r show ?thesis by blast
qed

text \<open>
  Claim C6 as stated fails: on a tree whose first leaf has no \<^verbatim>\<open>taxonomy\<close>, the
  flattener returns one row where the reference enumeration has two records.
\<close>

theorem flatten_differs_from_reference:
  "wf_tree tree_mixed \<and>
   process_gene_tree_data (JObj [(''tree'', tree_mixed)]) =
     Inr [\<lparr>row_gene_id = JStr ''L2'', row_gene_name = JStr ''N/A'', row_species = JStr ''Species B''\<rparr>] \<and>
   ref_flatten tree_mixed =
     [\<lparr>row_gene_id = JStr ''L4'', row_gene_name = JStr ''N/A'', row_species = JStr ''N/A''\<rparr>,
      \<lparr>row_gene_id = JStr ''L2'', row_gene_name = JStr ''N/A'', row_species = JStr ''Species B''\<rparr>] \<and>
   process_gene_tree_data (JObj [(''tree'', tree_mixed)]) \<noteq> Inr (ref_flatten tree_mixed)"
  by (simp add: flatten_eval)

text \<open>
  Claim C7, as the code has it. The flattener returns the empty sequence on null, on a
  scalar, on the empty list, on a mapping without a \<^verbatim>\<open>tree\<close> field and on a list whose
  first element is such a mapping. A mapping with a \<^verbatim>\<open>tree\<close> field, and a list of any
  length whose first element is one, is unwrapped and the wrapped root traversed.
\<close>

theorem flatten_envelope:
  "process_gene_tree_data JNull = Inr [] \<and>
   process_gene_tree_data (JList []) = Inr [] \<and>
   process_gene_tree_data (JBool b) = Inr [] \<and>
   process_gene_tree_data (JNum n) = Inr [] \<and>
   process_gene_tree_data (JStr s) = Inr [] \<and>
   (map_of kvs ''tree'' = Some root \<longrightarrow>
      process_gene_tree_data (JList (JObj kvs # rest)) = traverse_tree root \<and>
      process_gene_tree_data (JObj kvs) = traverse_tree root) \<and>
   (map_of kvs ''tree'' = None \<longrightarrow>
      process_gene_tree_data (JList (JObj kvs # rest)) = Inr [] \<and>
      process_gene_tree_data (JObj kvs) = Inr [])"
  by (simp add: process_gene_tree_data_def)

text \<open>The theorem at an envelope of the example tree and at an error payload.\<close>

theorem flatten_envelope_witness:
  "map_of [(''tree'', tree_ab)] ''tree'' = Some tree_ab \<and>
   process_gene_tree_data (JList [JObj [(''tree'', tree_ab)]]) = traverse_tree tree_ab \<and>
   process_gene_tree_data (JObj [(''tree'', tree_ab)]) = traverse_tree tree_ab \<and>
   map_of [(''error'', JStr ''not found'')] ''tree'' = None \<and>
   process_gene_tree_data (JList [JObj [(''error'', JStr ''not found'')]]) = Inr [] \<and>
   process_gene_tree_data (JObj [(''error'', JStr ''not found'')]) = Inr []"
  using flatten_envelope [of False 0 "[]" "[(''tree'', tree_ab)]" tree_ab "[]"]
    flatten_envelope [of False 0 "[]" "[(''error'', JStr ''not found'')]" tree_ab "[]"]
  by simp

text \<open>
  Claim C7 as stated fails on shapes other than the two envelopes: a list of two
  elements is still unwrapped through its first element, and a list whose first element
  is a number raises instead of returning the empty sequence.
\<close>

theorem flatten_other_shapes:
  "process_gene_tree_data (JList [JObj [(''tree'', leaf_a)], JNull]) =
     Inr [\<lparr>row_gene_id = JStr ''L1'', row_gene_name = JStr ''GeneA'', row_species = JStr ''Species A''\<rparr>] \<and>
   process_gene_tree_data (JList [JNum 5]) = Inl TypeError"
  by (simp add: flatten_eval)

section \<open>Properties of the batch engine\<close>

lemma write_gene_tree_shape:
  "(\<exists>x. \<forall>s. write_gene_tree e symbol info s = Inl x) \<or>
   (\<exists>path c. can_write e path \<and> (\<forall>s. write_gene_tree e symbol info s =
      Inr (s\<lparr>files := (files s)(path \<mapsto> c), log := log s @ [FileWritten path]\<rparr>)))"
proof -
  have w: "(\<exists>x. \<forall>s. write_file e path c s = Inl x) \<or>
     (can_write e path \<and> (\<forall>s. write_file e path c s =
      Inr (s\<lparr>files := (files s)(path \<mapsto> c), log := log s @ [FileWritten path]\<rparr>)))"
    for path c
    by (cases "can_write e path") (auto simp: write_file_def)
  show ?thesis
  proof (cases "py_truthy info")
    case False
    with w [of "output_file e symbol ''.txt''" "Text no_tree_text"] show ?thesis
      by (simp add: write_gene_tree_def) blast
  next
    case True
    show ?thesis
    proof (cases "process_gene_tree_data info")
      case (Inl x)
      with True show ?thesis by (simp add: write_gene_tree_def)
    next
      case (Inr rows)
      show ?thesis
      proof (cases "rows = []")
        case e: True
        with w [of "output_file e symbol ''.txt''" "Text no_tree_text"] True Inr show ?thesis
          by (simp add: write_gene_tree_def) blast
      next
        case ne: False
        with w [of "output_file e symbol ''.csv''"
            "Table [''gene_id'', ''gene_name'', ''species''] rows"] True Inr show ?thesis
          by (simp add: write_gene_tree_def) blast
      qed
    qed
  qed
qed

lemmas step_defs = process_gene_def failed_state_def done_state_def sleep_def called_def
  save_checkpoint_def save_checkpoint_writes_def checkpoint_data_def Let_def

lemma failedI:
  "primary_lookups evs = [] \<Longrightarrow>
   (\<And>s. gene_id g \<notin> processed_genes s \<Longrightarrow> process_gene e s g = failed_state s g evs) \<Longrightarrow>
   (\<exists>evs. primary_lookups evs = [] \<and>
      (\<forall>s. gene_id g \<notin> processed_genes s \<longrightarrow> process_gene e s g = failed_state s g evs)) \<or>
   (\<exists>evs path c. primary_lookups evs = [] \<and> can_write e path \<and>
      FileWritten path \<in> set evs \<and>
      (\<forall>s. gene_id g \<notin> processed_genes s \<longrightarrow> process_gene e s g = done_state e s g path c evs))"
  by blast

lemma doneI:
  "primary_lookups evs = [] \<Longrightarrow> can_write e path \<Longrightarrow> FileWritten path \<in> set evs \<Longrightarrow>
   (\<And>s. gene_id g \<notin> processed_genes s \<Longrightarrow> process_gene e s g = done_state e s g path c evs) \<Longrightarrow>
   (\<exists>evs. primary_lookups evs = [] \<and>
      (\<forall>s. gene_id g \<notin> processed_genes s \<longrightarrow> process_gene e s g = failed_state s g evs)) \<or>
   (\<exists>evs path c. primary_lookups evs = [] \<and> can_write e path \<and>
      FileWritten path \<in> set evs \<and>
      (\<forall>s. gene_id g \<notin> processed_genes s \<longrightarrow> process_gene e s g = done_state e s g path c evs))"
  by blast

lemma process_gene_shape:
  "(\<exists>evs. primary_lookups evs = [] \<and>
      (\<forall>s. gene_id g \<notin> processed_genes s \<longrightarrow> process_gene e s g = failed_state s g evs)) \<or>
   (\<exists>evs path c. primary_lookups evs = [] \<and> can_write e path \<and>
      FileWritten path \<in> set evs \<and>
      (\<forall>s. gene_id g \<notin> processed_genes s \<longrightarrow> process_gene e s g = done_state e s g path c evs))"
proof (cases "fetch_gene_info e (gene_id g)")
  case (Inl x)
  show ?thesis
    by (rule failedI [of "[Sleep]"]) (simp_all add: step_defs Inl primary_lookups_def)
next
  case info: (Inr info)
  show ?thesis
  proof (cases "py_truthy info")
    case False
    show ?thesis
      by (rule failedI [of "[]"]) (simp_all add: step_defs info False primary_lookups_def)
  next
    case True
    show ?thesis
    proof (cases "py_get info ''display_name'' (JStr (gene_symbol g))")
      case (Inl x)
      show ?thesis
        by (rule failedI [of "[Sleep]"]) (simp_all add: step_defs info True Inl primary_lookups_def)
    next
      case sym: (Inr symbol)
      show ?thesis
      proof (cases "fetch_gene_tree_info e (gene_id g) symbol")
        case (Inl x)
        show ?thesis
          by (rule failedI [of "[DependentLookup (render e symbol), Sleep]"])
            (simp_all add: step_defs info True sym Inl primary_lookups_def)
      next
        case tree: (Inr tree_info)
        from write_gene_tree_shape [of e symbol tree_info] show ?thesis
        proof (elim disjE exE conjE)
          fix x assume "\<forall>s. write_gene_tree e symbol tree_info s = Inl x"
          then show ?thesis
            by (intro failedI [of "[DependentLookup (render e symbol), Sleep]"])
              (simp_all add: step_defs info True sym tree primary_lookups_def)
        next
          fix path c
          assume w: "can_write e path"
            and "\<forall>s. write_gene_tree e symbol tree_info s =
              Inr (s\<lparr>files := (files s)(path \<mapsto> c), log := log s @ [FileWritten path]\<rparr>)"
          then show ?thesis
            by (intro doneI [of "[DependentLookup (render e symbol), FileWritten path,
                  CheckpointSaved, Sleep]" e path g c])
              (simp_all add: step_defs info True sym tree primary_lookups_def)
        qed
      qed
    qed
  qed
qed

lemma process_gene_failed:
  assumes "gene_id g \<notin> processed_genes s" and "\<not> completes e g"
  shows "\<exists>evs. primary_lookups evs = [] \<and> process_gene e s g = failed_state s g evs"
  using process_gene_shape [of g e]
proof (elim disjE exE conjE)
  fix evs assume "primary_lookups evs = []"
    and "\<forall>s. gene_id g \<notin> processed_genes s \<longrightarrow> process_gene e s g = failed_state s g evs"
  with assms(1) show ?thesis by blast
next
  fix evs path c
  assume "\<forall>s. gene_id g \<notin> processed_genes s \<longrightarrow> process_gene e s g = done_state e s g path c evs"
  then have "process_gene e nothing_done g = done_state e nothing_done g path c evs"
    by (simp add: nothing_done_def)
  then have "completes e g" by (simp add: completes_def done_state_def)
  with assms(2) show ?thesis by simp
qed

lemma process_gene_done:
  assumes "gene_id g \<notin> processed_genes s" and "completes e g"
  shows "\<exists>evs path c. primary_lookups evs = [] \<and> can_write e path \<and>
           FileWritten path \<in> set evs \<and>
           process_gene e s g = done_state e s g path c evs"
  using process_gene_shape [of g e]
proof (elim disjE exE conjE)
  fix evs
  assume "\<forall>s. gene_id g \<notin> processed_genes s \<longrightarrow> process_gene e s g = failed_state s g evs"
  then have "process_gene e nothing_done g = failed_state nothing_done g evs"
    by (simp add: nothing_done_def)
  then have "\<not> completes e g" by (simp add: completes_def failed_state_def nothing_done_def)
  with assms(2) show ?thesis by simp
next
  fix evs path c
  assume "primary_lookups evs = []" "can_write e path" "FileWritten path \<in> set evs"
    and "\<forall>s. gene_id g \<notin> processed_genes s \<longrightarrow> process_gene e s g = done_state e s g path c evs"
  with assms(1) show ?thesis by blast
qed

lemma process_gene_skip:
  "gene_id g \<in> processed_genes s \<Longrightarrow>
   process_gene e s g = s\<lparr>current_gene_number := current_gene_number s + 1\<rparr>"
  by (simp add: process_gene_def)

lemma primary_lookups_append [simp]:
  "primary_lookups (xs @ ys) = primary_lookups xs @ primary_lookups ys"
  by (simp add: primary_lookups_def)

lemma primary_lookups_Cons [simp]:
  "primary_lookups (PrimaryLookup i # evs) = i # primary_lookups evs"
  by (simp add: primary_lookups_def)

lemma processed_genes_step:
  "processed_genes (process_gene e s g) =
     processed_genes s \<union> (if completes e g then {gene_id g} else {})"
proof (cases "gene_id g \<in> processed_genes s")
  case True
  then show ?thesis by (auto simp: process_gene_skip)
next
  case False
  show ?thesis
  proof (cases "completes e g")
    case True
    from process_gene_done [OF False True] True show ?thesis by (auto simp: done_state_def)
  next
    case f: False
    from process_gene_failed [OF False f] f show ?thesis by (auto simp: failed_state_def)
  qed
qed

lemma lookups_step:
  "primary_lookups (log (process_gene e s g)) =
     primary_lookups (log s) @ (if gene_id g \<in> processed_genes s then [] else [gene_id g])"
proof (cases "gene_id g \<in> processed_genes s")
  case True
  then show ?thesis by (simp add: process_gene_skip)
next
  case False
  show ?thesis
  proof (cases "completes e g")
    case True
    from process_gene_done [OF False True] False show ?thesis by (auto simp: done_state_def)
  next
    case f: False
    from process_gene_failed [OF False f] False show ?thesis by (auto simp: failed_state_def)
  qed
qed






lemma lookups_foldl:
  "distinct (map gene_id gs) \<Longrightarrow>
   primary_lookups (log (foldl (process_gene e) s gs)) =
     primary_lookups (log s) @ filter (\<lambda>i. i \<notin> processed_genes s) (map gene_id gs)"
proof (induction gs arbitrary: s)
  case Nil
  then show ?case by simp
next
  case (Cons g gs)
  have "filter (\<lambda>i. i \<notin> processed_genes (process_gene e s g)) (map gene_id gs) =
        filter (\<lambda>i. i \<notin> processed_genes s) (map gene_id gs)"
  proof (intro filter_cong refl)
    fix i assume "i \<in> set (map gene_id gs)"
    with Cons.prems have "i \<noteq> gene_id g" by force
    then show "(i \<notin> processed_genes (process_gene e s g)) = (i \<notin> processed_genes s)"
      by (simp add: processed_genes_step)
  qed
  with Cons show ?case by (simp add: lookups_step)
qed


lemma py_slice_nonneg:
  "0 \<le> i \<Longrightarrow> 0 \<le> c \<Longrightarrow> py_slice xs i (i + c) = take (nat c) (drop (nat i) xs)"
  by (auto simp: py_slice_def Let_def min_def)

lemma concat_chunks:
  "concat (map (\<lambda>k. take c (drop (p + k * c) xs)) [0..<m]) = take (m * c) (drop p xs)"
proof (induction m)
  case 0
  then show ?case by simp
next
  case (Suc m)
  have "take (m * c + c) (drop p xs) =
        take (m * c) (drop p xs) @ take c (drop (m * c) (drop p xs))"
    by (rule take_add)
  also have "drop (m * c) (drop p xs) = drop (p + m * c) xs"
    by (simp add: add.commute)
  finally have "take (Suc m * c) (drop p xs) =
        take (m * c) (drop p xs) @ take c (drop (p + m * c) xs)"
    by (simp add: add.commute)
  with Suc show ?case by simp
qed

lemma visited_drop:
  assumes "0 \<le> n"
  shows "visited anole_genes n = drop (nat n) anole_genes"
proof -
  define m where "m = nat ((int (length anole_genes) - n + batch_size - 1) div batch_size)"
  have slices: "map (\<lambda>i. py_slice anole_genes i (i + batch_size))
                  (py_range n (int (length anole_genes)) batch_size) =
                map (\<lambda>k. take 100 (drop (nat n + k * 100) anole_genes)) [0..<m]"
    using assms
    by (simp add: py_range_def m_def py_slice_nonneg batch_size_def nat_add_distrib nat_mult_distrib)
  have "length anole_genes - nat n \<le> m * 100"
    unfolding m_def batch_size_def using assms by linarith
  then have "take (m * 100) (drop (nat n) anole_genes) = drop (nat n) anole_genes"
    by simp
  with slices show ?thesis
    by (simp add: visited_def batches_def concat_chunks)
qed

lemma foldl_batches:
  "foldl (process_gene_batch e) s bs = foldl (process_gene e) s (concat bs)"
  by (induction bs arbitrary: s) (simp_all add: process_gene_batch_def)

lemma process_all_visited:
  "process_all_gene_trees e anole_genes s =
     (case load_checkpoint (checkpoint_file s) of
        Inl x \<Rightarrow> Inl x
      | Inr (loaded, last_gene, n) \<Rightarrow>
          Inr (save_checkpoint e
                 (foldl (process_gene e)
                    (s\<lparr>processed_genes := loaded, current_gene_number := n\<rparr>)
                    (visited anole_genes n))))"
  by (simp add: process_all_gene_trees_def foldl_batches visited_def split: sum.splits)

text \<open>The equations that evaluate a run in the example surroundings.\<close>

lemmas example_defs = example_env_def example_primary_def example_dependent_def
  example_render_def outage_env_def gene_1_def gene_2_def gene_3_def gene_4_def gene_5_def
  gene_6_def nothing_done_def two_done_def

lemmas engine_eval = process_gene_def fetch_gene_info_def fetch_gene_tree_info_def
  write_gene_tree_def write_file_def output_file_def output_dir_def path_join_def
  no_tree_text_def save_checkpoint_def save_checkpoint_writes_def checkpoint_data_def
  sleep_def called_def load_checkpoint_def Let_def

text \<open>
  Claim C9, as the code has it. Processing a gene whose id is already in
  \<^verbatim>\<open>processed_genes\<close> makes no remote call, writes no file and leaves the checkpoint
  file, the completed set and the last completed gene as they are; it does add one to
  the position counter \<^verbatim>\<open>current_gene_number\<close>, and nothing else changes.
\<close>

theorem skip_is_silent:
  assumes "gene_id g \<in> processed_genes s"
  shows "process_gene e s g = s\<lparr>current_gene_number := current_gene_number s + 1\<rparr> \<and>
         log (process_gene e s g) = log s \<and>
         files (process_gene e s g) = files s \<and>
         checkpoint_file (process_gene e s g) = checkpoint_file s \<and>
         processed_genes (process_gene e s g) = processed_genes s \<and>
         last_processed_gene (process_gene e s g) = last_processed_gene s"
  using assms by (simp add: process_gene_def)

text \<open>The theorem at a process that has completed \<^verbatim>\<open>G1\<close> and meets it again.\<close>

theorem skip_is_silent_witness:
  "gene_id gene_1 \<in> processed_genes two_done \<and>
   process_gene example_env two_done gene_1 = two_done\<lparr>current_gene_number := 3\<rparr> \<and>
   log (process_gene example_env two_done gene_1) = []"
proof -
  have m: "gene_id gene_1 \<in> processed_genes two_done" by (simp add: example_defs)
  from skip_is_silent [OF m, of example_env] m show ?thesis
    by (simp add: two_done_def)
qed

text \<open>
  Claim C9 as stated fails for the position: the skip of a completed gene moves
  \<^verbatim>\<open>current_gene_number\<close> from 2 to 3 (line 106 runs before the test of line 108).
\<close>

theorem skip_moves_position:
  "gene_id gene_1 \<in> processed_genes two_done \<and>
   current_gene_number two_done = 2 \<and>
   current_gene_number (process_gene example_env two_done gene_1) = 3"
  by (simp add: process_gene_def example_defs)

text \<open>
  Claim C10. For a state whose completed set \<^verbatim>\<open>list\<close> enumerates (each element, in any
  order, repetitions allowed), what \<^verbatim>\<open>load_checkpoint\<close> reads from the file that
  \<^verbatim>\<open>save_checkpoint\<close> wrote is the same set, the same last gene and the same position;
  and a stored record without the key \<^verbatim>\<open>current_gene_number\<close> loads with position 0.
\<close>

theorem checkpoint_roundtrip:
  assumes "set (listing e (processed_genes s)) = processed_genes s"
  shows "load_checkpoint (checkpoint_file (save_checkpoint e s)) =
           Inr (processed_genes s, last_processed_gene s, current_gene_number s) \<and>
         load_checkpoint (Stored (d\<lparr>st_current_gene_number := None\<rparr>)) =
           Inr (set (st_processed_genes d), st_last_gene d, 0)"
  using assms
  by (simp add: load_checkpoint_def save_checkpoint_def save_checkpoint_writes_def
      checkpoint_data_def)

text \<open>The theorem at a state with two completed genes.\<close>

theorem checkpoint_roundtrip_witness:
  "set (listing example_env (processed_genes two_done)) = processed_genes two_done \<and>
   load_checkpoint (checkpoint_file (save_checkpoint example_env two_done)) =
     Inr ({''G1'', ''G2''}, Some ''G2'', 2) \<and>
   load_checkpoint (Stored \<lparr>st_processed_genes = [''G1'', ''G2''], st_last_gene = None,
                             st_current_gene_number = None\<rparr>) =
     Inr ({''G1'', ''G2''}, None, 0)"
proof -
  have l: "set (listing example_env (processed_genes two_done)) = processed_genes two_done"
    by (simp add: example_defs)
  from checkpoint_roundtrip [OF l, of "\<lparr>st_processed_genes = [''G1'', ''G2''],
      st_last_gene = None, st_current_gene_number = Some 7\<rparr>"] l
  show ?thesis by (simp add: two_done_def)
qed

text \<open>
  Claim C8, as the code has it. \<^verbatim>\<open>save_checkpoint\<close> writes in place: a process that dies
  before the file is opened leaves the previous content; one that dies after the open
  and before the close leaves an incomplete file, which \<^verbatim>\<open>load_checkpoint\<close> cannot read;
  only when both writes have reached the disk does the file hold the new state.
\<close>

theorem save_in_place:
  "file_after_crash e s 0 = checkpoint_file s \<and>
   file_after_crash e s 1 = Incomplete \<and>
   load_checkpoint (file_after_crash e s 1) = Inl JSONDecodeError \<and>
   (2 \<le> k \<longrightarrow> file_after_crash e s k = checkpoint_file (save_checkpoint e s))"
  by (simp add: file_after_crash_def save_checkpoint_writes_def save_checkpoint_def
      load_checkpoint_def min_def)

text \<open>The theorem at a save that runs to its end, and at a crash in the middle.\<close>

theorem save_in_place_witness:
  "(2::nat) \<le> 2 \<and>
   file_after_crash example_env two_done 2 =
     checkpoint_file (save_checkpoint example_env two_done) \<and>
   load_checkpoint (checkpoint_file (save_checkpoint example_env two_done)) =
     Inr ({''G1'', ''G2''}, Some ''G2'', 2) \<and>
   load_checkpoint (file_after_crash example_env two_done 1) = Inl JSONDecodeError"
proof -
  note t = save_in_place [of example_env two_done 2]
  from t have c: "load_checkpoint (file_after_crash example_env two_done 1) = Inl JSONDecodeError"
    by blast
  from t have "(2::nat) \<le> 2 \<longrightarrow>
      file_after_crash example_env two_done 2 =
        checkpoint_file (save_checkpoint example_env two_done)"
    by blast
  then have a: "file_after_crash example_env two_done 2 =
             checkpoint_file (save_checkpoint example_env two_done)"
    by simp
  have b: "load_checkpoint (checkpoint_file (save_checkpoint example_env two_done)) =
          Inr ({''G1'', ''G2''}, Some ''G2'', 2)"
    by (simp add: save_checkpoint_def save_checkpoint_writes_def checkpoint_data_def
        load_checkpoint_def example_defs)
  from a b c show ?thesis by blast
qed

text \<open>
  Claim C8 as stated fails: after a crash between the open and the close, the file is
  neither the previous valid state nor the new one, and it cannot be loaded; the next
  run then fails to load it and saves an empty checkpoint over it.
\<close>

theorem crash_during_save_loses_checkpoint:
  "load_checkpoint (checkpoint_file two_done) = Inr ({''G1''}, Some ''G1'', 1) \<and>
   load_checkpoint (checkpoint_file (save_checkpoint example_env two_done)) =
     Inr ({''G1'', ''G2''}, Some ''G2'', 2) \<and>
   load_checkpoint (file_after_crash example_env two_done 1) = Inl JSONDecodeError \<and>
   file_after_crash example_env two_done 1 \<noteq> checkpoint_file two_done \<and>
   file_after_crash example_env two_done 1 \<noteq> checkpoint_file (save_checkpoint example_env two_done) \<and>
   load_checkpoint (checkpoint_file
     (main example_env [gene_1, gene_2]
        (two_done\<lparr>checkpoint_file := file_after_crash example_env two_done 1\<rparr>))) =
     Inr ({}, None, 0)"
  by (simp add: file_after_crash_def save_checkpoint_writes_def save_checkpoint_def
      load_checkpoint_def checkpoint_data_def main_def process_all_gene_trees_def
      new_process_def example_defs)

















lemma primary_lookups_Nil [simp]: "primary_lookups [] = []"
  by (simp add: primary_lookups_def)

lemma primary_lookups_saved [simp]:
  "primary_lookups (log (save_checkpoint e s)) = primary_lookups (log s)"
  by (simp add: save_checkpoint_def primary_lookups_def)












text \<open>
  Claim C1, as the code has it. A run goes through the gene list from the index that the
  checkpoint gives as position (from the first gene only when that is 0), in the
  list's order; among these genes it skips those whose id is in the completed set that
  the checkpoint gives, and requests the primary lookup of each of the others exactly
  once (the ids being distinct). A gene before the position is not visited, whether or
  not it is completed.
\<close>

theorem resume_from_position:
  assumes "load_checkpoint (checkpoint_file d) = Inr (loaded, last_gene, n)"
    and "0 \<le> n"
    and "distinct (map gene_id anole_genes)"
  shows "primary_lookups (log (main e anole_genes d)) =
           filter (\<lambda>i. i \<notin> loaded) (map gene_id (drop (nat n) anole_genes))"
proof -
  have dist: "distinct (map gene_id (drop (nat n) anole_genes))"
    using assms(3) by (simp add: drop_map [symmetric])
  have "main e anole_genes d =
          save_checkpoint e
            (foldl (process_gene e)
               (new_process d\<lparr>processed_genes := loaded, current_gene_number := n\<rparr>)
               (drop (nat n) anole_genes))"
    using assms(1,2) by (simp add: main_def process_all_visited new_process_def visited_drop)
  then show ?thesis
    by (simp add: lookups_foldl [OF dist] new_process_def)
qed

text \<open>The theorem at a checkpoint that holds \<^verbatim>\<open>G1\<close> with position 1.\<close>

theorem resume_from_position_witness:
  "load_checkpoint (checkpoint_file two_done) = Inr ({''G1''}, Some ''G1'', 1) \<and>
   (0::int) \<le> 1 \<and>
   distinct (map gene_id [gene_1, gene_2, gene_3]) \<and>
   primary_lookups (log (main example_env [gene_1, gene_2, gene_3] two_done)) = [''G2'', ''G3'']"
proof -
  have a: "load_checkpoint (checkpoint_file two_done) = Inr ({''G1''}, Some ''G1'', 1)"
    by (simp add: load_checkpoint_def two_done_def)
  have b: "(0::int) \<le> 1" by simp
  have c: "distinct (map gene_id [gene_1, gene_2, gene_3])" by (simp add: example_defs)
  from resume_from_position [OF a b c, of example_env] a c show ?thesis
    by (simp add: example_defs)
qed

text \<open>
  Claim C1 as stated fails: in a first run the primary lookup of \<^verbatim>\<open>G1\<close> answers 503
  and \<^verbatim>\<open>G2\<close> is completed; the checkpoint then holds position 2, and the next run, in
  which the lookup would succeed, visits no gene at all: \<^verbatim>\<open>G1\<close> is not in the completed
  set and is not processed again.
\<close>

theorem failed_gene_not_retried:
  "primary_lookups (log (main outage_env [gene_1, gene_2] nothing_done)) = [''G1'', ''G2''] \<and>
   load_checkpoint (checkpoint_file (main outage_env [gene_1, gene_2] nothing_done)) =
     Inr ({''G2''}, Some ''G2'', 2) \<and>
   ''G1'' \<notin> processed_genes
     (main example_env [gene_1, gene_2] (main outage_env [gene_1, gene_2] nothing_done)) \<and>
   primary_lookups (log
     (main example_env [gene_1, gene_2] (main outage_env [gene_1, gene_2] nothing_done))) = []"
proof -
  have run1: "main outage_env [gene_1, gene_2] nothing_done =
      \<lparr>last_processed_gene = Some ''G2'', processed_genes = {''G2''}, current_gene_number = 2,
       files = [''green_anole_gene_tree_files/bar_gene_tree.txt'' \<mapsto> Text ''No gene tree available''],
       checkpoint_file = Stored \<lparr>st_processed_genes = sorted_list_of_set {''G2''},
                                 st_last_gene = Some ''G2'', st_current_gene_number = Some 2\<rparr>,
       log = [PrimaryLookup ''G1'', PrimaryLookup ''G2'', DependentLookup ''bar'',
              FileWritten ''green_anole_gene_tree_files/bar_gene_tree.txt'', CheckpointSaved,
              Sleep, CheckpointSaved]\<rparr>"
    by (simp add: main_def process_all_visited new_process_def visited_drop engine_eval
        example_defs)
  show ?thesis
    unfolding run1
    by (simp add: main_def process_all_visited new_process_def visited_drop engine_eval
        example_defs primary_lookups_def)
qed




end
